theory Spec2Isabelle
  imports Main
begin

section \<open>Messages and the in-memory chat history\<close>

text \<open>
  The notebook stores chat messages of the library type \<open>BaseMessage\<close>. Only two kinds
  occur: the human turn built by the prompt template entry \<open>("human", "{question}")\<close>
  and the reply of the model. The specification calls them \<open>user\<close> and \<open>assistant\<close>.
\<close>

datatype role = Human | AI

record message =
  role :: role
  content :: string

text \<open>
  \<^verbatim>\<open>
  class InMemoryHistory(BaseChatMessageHistory, BaseModel):
      messages: List[BaseMessage] = Field(default_factory=list)
  \<close>
\<close>

record InMemoryHistory =
  messages :: "message list"

text \<open>
  Histories are Python objects: the global dictionary \<open>store\<close> holds references to
  them, and a method mutates the object it is called on. The model keeps an explicit
  object heap. An address is a natural number, \<open>nxt\<close> is the next address that a
  constructor call will hand out, and \<open>store\<close> maps a session identifier to the
  address of its history. Python has no dangling references, so the heap is a total
  function; what sits at an address that was never allocated is never read by the code.
  Session identifiers and message texts are only stored, copied and compared for
  equality, so they are plain strings.
\<close>

type_synonym addr = nat

record state =
  store :: "string \<rightharpoonup> addr"
  heap :: "addr \<Rightarrow> InMemoryHistory"
  nxt :: addr

datatype error = KeyError string | ModelClientError string

text \<open>The state right after the cell that executes \<open>store = {}\<close>.\<close>

definition init :: state where
  "init = \<lparr>store = Map.empty, heap = (\<lambda>_. \<lparr>messages = []\<rparr>), nxt = 0\<rparr>"

subsection \<open>Methods of \<open>InMemoryHistory\<close>\<close>

text \<open>The constructor call \<open>InMemoryHistory()\<close>: a new object with a new empty list.\<close>

definition new_InMemoryHistory :: "state \<Rightarrow> addr \<times> state" where
  "new_InMemoryHistory st =
     (nxt st, st\<lparr>heap := (heap st)(nxt st := \<lparr>messages = []\<rparr>), nxt := Suc (nxt st)\<rparr>)"

text \<open>
  \<open>self.messages.extend(messages)\<close>: the list of the object grows in place by the
  elements that the argument holds when the method is called.
\<close>

definition add_messages :: "addr \<Rightarrow> message list \<Rightarrow> state \<Rightarrow> state" where
  "add_messages self msgs st =
     st\<lparr>heap := (heap st)(self := (heap st self)\<lparr>messages := messages (heap st self) @ msgs\<rparr>)\<rparr>"

text \<open>\<open>self.messages = []\<close>: the object stays, its list is replaced by an empty one.\<close>

definition clear :: "addr \<Rightarrow> state \<Rightarrow> state" where
  "clear self st = st\<lparr>heap := (heap st)(self := (heap st self)\<lparr>messages := []\<rparr>)\<rparr>"

subsection \<open>The session store\<close>

text \<open>Subscription \<open>d[k]\<close> of a dictionary raises \<open>KeyError\<close> on a missing key.\<close>

definition dict_getitem :: "(string \<rightharpoonup> 'v) \<Rightarrow> string \<Rightarrow> error + 'v" where
  "dict_getitem d k = (case d k of None \<Rightarrow> Inl (KeyError k) | Some v \<Rightarrow> Inr v)"

text \<open>
  \<^verbatim>\<open>
  def get_by_session_id(session_id: str) -> BaseChatMessageHistory:
      if session_id not in store:
          store[session_id] = InMemoryHistory()
      return store[session_id]
  \<close>
\<close>

definition get_by_session_id :: "string \<Rightarrow> state \<Rightarrow> error + addr \<times> state" where
  "get_by_session_id session_id st =
     (let st1 = (if store st session_id = None
                 then (case new_InMemoryHistory st of
                         (h, st') \<Rightarrow> st'\<lparr>store := (store st')(session_id \<mapsto> h)\<rparr>)
                 else st)
      in case dict_getitem (store st1) session_id of
           Inl e \<Rightarrow> Inl e
         | Inr h \<Rightarrow> Inr (h, st1))"

text \<open>
  What a caller sees as the history of a session: the messages of the object that
  \<open>get_by_session_id\<close> hands out for it.
\<close>

definition history_messages :: "string \<Rightarrow> state \<Rightarrow> message list" where
  "history_messages session_id st =
     (case get_by_session_id session_id st of
        Inl _ \<Rightarrow> []
      | Inr (h, st') \<Rightarrow> messages (heap st' h))"

text \<open>
  The store is written only by \<open>get_by_session_id\<close>, which binds a new identifier to
  a newly built object. So at every moment no two identifiers are bound to the same
  object, and every bound address lies below \<open>nxt\<close>.
\<close>

definition store_inv :: "state \<Rightarrow> bool" where
  "store_inv st \<longleftrightarrow>
     (\<forall>s s' h. store st s = Some h \<and> store st s' = Some h \<longrightarrow> s = s')
     \<and> (\<forall>s h. store st s = Some h \<longrightarrow> h < nxt st)"

text \<open>
  The operations the notebook offers on the store and on a history it has handed out,
  and a run of any number of them.
\<close>

datatype action =
  GetOrCreate string
  | AddMessages addr "message list"
  | ClearHistory addr

fun apply_action :: "action \<Rightarrow> state \<Rightarrow> state" where
  "apply_action (GetOrCreate s) st =
     (case get_by_session_id s st of Inl _ \<Rightarrow> st | Inr (_, st') \<Rightarrow> st')"
| "apply_action (AddMessages h msgs) st = add_messages h msgs st"
| "apply_action (ClearHistory h) st = clear h st"

fun run_actions :: "action list \<Rightarrow> state \<Rightarrow> state" where
  "run_actions [] st = st"
| "run_actions (a # as) st = run_actions as (apply_action a st)"

subsection \<open>The conversation runner\<close>

text \<open>
  \<^verbatim>\<open>
  prompt = ChatPromptTemplate.from_messages(
      [MessagesPlaceholder(variable_name="history"), ("human", "{question}")])
  chain = prompt | llm
  \<close>
  The template yields the messages bound to \<open>history\<close> followed by one human message
  whose content is the question. The model client \<open>llm\<close> is an external service: it is
  a parameter, a function from the request to an error or the reply text.
\<close>

type_synonym model_client = "message list \<Rightarrow> error + string"

definition prompt :: "message list \<Rightarrow> string \<Rightarrow> message list" where
  "prompt history question = history @ [\<lparr>role = Human, content = question\<rparr>]"

definition chain :: "model_client \<Rightarrow> message list \<Rightarrow> string \<Rightarrow> error + string" where
  "chain llm history question = llm (prompt history question)"

text \<open>
  What one call of the runner leaves behind: its result (the reply text, or the error
  it raised), the requests it sent to the model client, in order, and the state.
\<close>

record outcome =
  result :: "error + string"
  requests :: "message list list"
  final :: state

text \<open>
  Modelled from the spec: the body of the conversation runner. The notebook only
  configures it,
  \<^verbatim>\<open>
  conversation = RunnableWithMessageHistory(chain, get_by_session_id,
      input_messages_key="question", history_messages_key="history")
  \<close>
  and the code of \<open>RunnableWithMessageHistory.invoke\<close> belongs to a library that is not
  part of the sources. The definition follows section 4.2 of the specification step by
  step, on top of the notebook's own \<open>get_by_session_id\<close>, \<open>prompt\<close>, \<open>chain\<close> and
  \<open>add_messages\<close>: (1) fetch the history of the session, (2) build the request from
  the full prior history and the new user message, (3) call the model client once,
  (4) on success append the user message and the assistant message, in that order,
  (5) return the reply text; a failure of the model client is passed on as it is and
  step 4 is skipped.
\<close>

definition respond :: "model_client \<Rightarrow> string \<Rightarrow> string \<Rightarrow> state \<Rightarrow> outcome" where
  "respond llm sessionId userText st =
     (case get_by_session_id sessionId st of
        Inl e \<Rightarrow> \<lparr>result = Inl e, requests = [], final = st\<rparr>
      | Inr (h, st1) \<Rightarrow>
          (let history = messages (heap st1 h) in
           case chain llm history userText of
             Inl e \<Rightarrow>
               \<lparr>result = Inl e, requests = [prompt history userText], final = st1\<rparr>
           | Inr assistantText \<Rightarrow>
               \<lparr>result = Inr assistantText,
                requests = [prompt history userText],
                final = add_messages h
                          [\<lparr>role = Human, content = userText\<rparr>,
                           \<lparr>role = AI, content = assistantText\<rparr>] st1\<rparr>))"

text \<open>
  Two stand-ins for the external model client, for evaluating the runner on concrete
  inputs: one that always replies with a fixed text and one that always fails.
\<close>

definition replying_client :: "string \<Rightarrow> model_client" where
  "replying_client reply request = Inr reply"

definition failing_client :: "error \<Rightarrow> model_client" where
  "failing_client e request = Inl e"

text \<open>
  A state like the one the notebook reaches: one finished turn in session \<open>foo\<close>, then
  one finished turn in session \<open>bar\<close>.
\<close>

definition two_sessions :: state where
  "two_sessions =
     final (respond (replying_client ''Paris'') ''bar'' ''What is the capital of France?''
       (final (respond (replying_client ''Hello'') ''foo'' ''Hi'' init)))"

section \<open>Basic facts\<close>

lemma get_by_session_id_unseen:
  "store st s = None \<Longrightarrow>
   get_by_session_id s st =
     Inr (nxt st, st\<lparr>heap := (heap st)(nxt st := \<lparr>messages = []\<rparr>),
                     nxt := Suc (nxt st),
                     store := (store st)(s \<mapsto> nxt st)\<rparr>)"
  by (simp add: get_by_session_id_def new_InMemoryHistory_def dict_getitem_def)

lemma get_by_session_id_seen:
  "store st s = Some h \<Longrightarrow> get_by_session_id s st = Inr (h, st)"
  by (simp add: get_by_session_id_def dict_getitem_def)

section \<open>Appending to a history\<close>

text \<open>
  Claim C9. \<open>add_messages\<close> is a homomorphism from message lists under concatenation
  to updates of a history: adding \<open>a\<close> and then \<open>b\<close> to the history object \<open>h\<close> is the
  same as adding \<open>a @ b\<close> once, and leaves the old messages followed by \<open>a\<close> followed
  by \<open>b\<close>; adding the empty list changes nothing; the old messages stay, in their
  order, as the front of the new list.
\<close>

theorem add_messages_homomorphism:
  "add_messages h b (add_messages h a st) = add_messages h (a @ b) st
   \<and> messages (heap (add_messages h b (add_messages h a st)) h)
       = messages (heap st h) @ a @ b
   \<and> add_messages h [] st = st
   \<and> take (length (messages (heap st h))) (messages (heap (add_messages h a st) h))
       = messages (heap st h)"
  by (simp add: add_messages_def)


section \<open>Facts about the store\<close>

lemma history_messages_store:
  "history_messages s st = (case store st s of None \<Rightarrow> [] | Some h \<Rightarrow> messages (heap st h))"
  by (simp add: history_messages_def get_by_session_id_unseen get_by_session_id_seen
      split: option.split)

lemma get_by_session_id_cases:
  assumes "get_by_session_id s st = Inr (h, st1)"
  shows "store st1 s = Some h"
    and "messages (heap st1 h) = history_messages s st"
    and "\<And>s'. s' \<noteq> s \<Longrightarrow> store st1 s' = store st s'"
    and "\<And>s' h'. store st s' = Some h' \<Longrightarrow> store st1 s' = Some h'"
proof -
  show "store st1 s = Some h"
    using assms
    by (cases "store st s") (auto simp: get_by_session_id_unseen get_by_session_id_seen)
  show "messages (heap st1 h) = history_messages s st"
    using assms
    by (cases "store st s")
      (auto simp: get_by_session_id_unseen get_by_session_id_seen history_messages_store)
  show "store st1 s' = store st s'" if "s' \<noteq> s" for s'
    using assms that
    by (cases "store st s") (auto simp: get_by_session_id_unseen get_by_session_id_seen)
  show "store st1 s' = Some h'" if "store st s' = Some h'" for s' h'
    using assms that
    by (cases "store st s") (auto simp: get_by_session_id_unseen get_by_session_id_seen)
qed

lemma get_by_session_id_never_fails: "get_by_session_id s st \<noteq> Inl e"
  by (cases "store st s") (simp_all add: get_by_session_id_unseen get_by_session_id_seen)

lemma store_add_messages [simp]: "store (add_messages h msgs st) = store st"
  by (simp add: add_messages_def)

lemma store_clear [simp]: "store (clear h st) = store st"
  by (simp add: clear_def)

lemma apply_action_keeps_binding:
  "store st s = Some h \<Longrightarrow> store (apply_action a st) s = Some h"
proof (cases a)
  case (GetOrCreate s')
  assume bound: "store st s = Some h"
  show ?thesis
  proof (cases "get_by_session_id s' st")
    case (Inl e)
    with GetOrCreate bound show ?thesis by simp
  next
    case (Inr p)
    obtain h' st' where p: "p = (h', st')" by (cases p)
    from Inr p bound have "store st' s = Some h"
      by (simp add: get_by_session_id_cases(4))
    with GetOrCreate Inr p show ?thesis by simp
  qed
qed simp_all

lemma run_actions_keeps_binding:
  "store st s = Some h \<Longrightarrow> store (run_actions acts st) s = Some h"
  by (induction acts arbitrary: st) (simp_all add: apply_action_keeps_binding)

subsection \<open>The invariant of the store\<close>

lemma store_inv_init: "store_inv init"
  by (simp add: store_inv_def init_def)

lemma store_inv_get_by_session_id:
  assumes "store_inv st" and "get_by_session_id s st = Inr (h, st1)"
  shows "store_inv st1"
proof (cases "store st s")
  case None
  with assms(2) have st1: "st1 = st\<lparr>heap := (heap st)(nxt st := \<lparr>messages = []\<rparr>),
      nxt := Suc (nxt st), store := (store st)(s \<mapsto> nxt st)\<rparr>"
    by (auto simp: get_by_session_id_unseen)
  from assms(1) have below: "\<And>s' h'. store st s' = Some h' \<Longrightarrow> h' < nxt st"
    and inj: "\<And>s' s'' h'. store st s' = Some h' \<Longrightarrow> store st s'' = Some h' \<Longrightarrow> s' = s''"
    by (auto simp: store_inv_def)
  show ?thesis
    unfolding store_inv_def st1
    using below inj by (fastforce split: if_splits)
next
  case (Some h')
  with assms show ?thesis by (simp add: get_by_session_id_seen)
qed

lemma store_inv_add_messages [simp]: "store_inv (add_messages h msgs st) = store_inv st"
  by (simp add: store_inv_def add_messages_def)

lemma store_inv_clear [simp]: "store_inv (clear h st) = store_inv st"
  by (simp add: store_inv_def clear_def)

lemma store_inv_apply_action: "store_inv st \<Longrightarrow> store_inv (apply_action a st)"
proof (cases a)
  case (GetOrCreate s)
  assume inv: "store_inv st"
  show ?thesis
  proof (cases "get_by_session_id s st")
    case (Inl e)
    with GetOrCreate inv show ?thesis by simp
  next
    case (Inr p)
    obtain h st' where "p = (h, st')" by (cases p)
    with GetOrCreate Inr inv show ?thesis
      by (simp add: store_inv_get_by_session_id)
  qed
qed simp_all

lemma store_inv_run_actions: "store_inv st \<Longrightarrow> store_inv (run_actions acts st)"
  by (induction acts arbitrary: st) (simp_all add: store_inv_apply_action)

lemma store_inv_distinct:
  "store_inv st \<Longrightarrow> s1 \<noteq> s2 \<Longrightarrow> store st s1 = Some h1 \<Longrightarrow> store st s2 = Some h2 \<Longrightarrow> h1 \<noteq> h2"
  by (auto simp: store_inv_def)

lemma heap_add_messages_other: "h' \<noteq> h \<Longrightarrow> heap (add_messages h msgs st) h' = heap st h'"
  by (simp add: add_messages_def)

lemma heap_clear_other: "h' \<noteq> h \<Longrightarrow> heap (clear h st) h' = heap st h'"
  by (simp add: clear_def)

section \<open>Facts about the conversation runner\<close>

lemma respond_unfold:
  obtains h st1 where "get_by_session_id s st = Inr (h, st1)"
    and "store st1 s = Some h"
    and "messages (heap st1 h) = history_messages s st"
    and "respond llm s t st =
      (case llm (prompt (history_messages s st) t) of
         Inl e \<Rightarrow> \<lparr>result = Inl e, requests = [prompt (history_messages s st) t], final = st1\<rparr>
       | Inr a \<Rightarrow> \<lparr>result = Inr a, requests = [prompt (history_messages s st) t],
                   final = add_messages h [\<lparr>role = Human, content = t\<rparr>,
                                           \<lparr>role = AI, content = a\<rparr>] st1\<rparr>)"
proof -
  obtain h st1 where g: "get_by_session_id s st = Inr (h, st1)"
    using get_by_session_id_never_fails [of s st]
    by (cases "get_by_session_id s st") auto
  have b: "store st1 s = Some h"
    using g by (rule get_by_session_id_cases(1))
  have m: "messages (heap st1 h) = history_messages s st"
    using g by (rule get_by_session_id_cases(2))
  have "respond llm s t st =
      (case llm (prompt (history_messages s st) t) of
         Inl e \<Rightarrow> \<lparr>result = Inl e, requests = [prompt (history_messages s st) t], final = st1\<rparr>
       | Inr a \<Rightarrow> \<lparr>result = Inr a, requests = [prompt (history_messages s st) t],
                   final = add_messages h [\<lparr>role = Human, content = t\<rparr>,
                                           \<lparr>role = AI, content = a\<rparr>] st1\<rparr>)"
    by (simp add: respond_def g m chain_def split: sum.split)
  with g b m show ?thesis by (rule that)
qed

lemma requests_respond:
  "requests (respond llm s t st) = [prompt (history_messages s st) t]"
proof -
  obtain h st1 where "respond llm s t st =
      (case llm (prompt (history_messages s st) t) of
         Inl e \<Rightarrow> \<lparr>result = Inl e, requests = [prompt (history_messages s st) t], final = st1\<rparr>
       | Inr a \<Rightarrow> \<lparr>result = Inr a, requests = [prompt (history_messages s st) t],
                   final = add_messages h [\<lparr>role = Human, content = t\<rparr>,
                                           \<lparr>role = AI, content = a\<rparr>] st1\<rparr>)"
    by (rule respond_unfold)
  then show ?thesis by (simp split: sum.split)
qed

lemma result_respond:
  "result (respond llm s t st) = llm (prompt (history_messages s st) t)"
proof -
  obtain h st1 where "respond llm s t st =
      (case llm (prompt (history_messages s st) t) of
         Inl e \<Rightarrow> \<lparr>result = Inl e, requests = [prompt (history_messages s st) t], final = st1\<rparr>
       | Inr a \<Rightarrow> \<lparr>result = Inr a, requests = [prompt (history_messages s st) t],
                   final = add_messages h [\<lparr>role = Human, content = t\<rparr>,
                                           \<lparr>role = AI, content = a\<rparr>] st1\<rparr>)"
    by (rule respond_unfold)
  then show ?thesis by (simp split: sum.split)
qed

lemma history_respond_failure:
  assumes "llm (prompt (history_messages s st) t) = Inl e"
  shows "history_messages s (final (respond llm s t st)) = history_messages s st"
proof -
  obtain h st1 where b: "store st1 s = Some h"
    and m: "messages (heap st1 h) = history_messages s st"
    and r: "respond llm s t st =
      (case llm (prompt (history_messages s st) t) of
         Inl e \<Rightarrow> \<lparr>result = Inl e, requests = [prompt (history_messages s st) t], final = st1\<rparr>
       | Inr a \<Rightarrow> \<lparr>result = Inr a, requests = [prompt (history_messages s st) t],
                   final = add_messages h [\<lparr>role = Human, content = t\<rparr>,
                                           \<lparr>role = AI, content = a\<rparr>] st1\<rparr>)"
    by (rule respond_unfold)
  from r assms have "final (respond llm s t st) = st1" by simp
  with b m show ?thesis by (simp add: history_messages_store)
qed

lemma history_respond_success:
  assumes "llm (prompt (history_messages s st) t) = Inr a"
  shows "history_messages s (final (respond llm s t st))
         = history_messages s st @ [\<lparr>role = Human, content = t\<rparr>, \<lparr>role = AI, content = a\<rparr>]"
proof -
  obtain h st1 where b: "store st1 s = Some h"
    and m: "messages (heap st1 h) = history_messages s st"
    and r: "respond llm s t st =
      (case llm (prompt (history_messages s st) t) of
         Inl e \<Rightarrow> \<lparr>result = Inl e, requests = [prompt (history_messages s st) t], final = st1\<rparr>
       | Inr a \<Rightarrow> \<lparr>result = Inr a, requests = [prompt (history_messages s st) t],
                   final = add_messages h [\<lparr>role = Human, content = t\<rparr>,
                                           \<lparr>role = AI, content = a\<rparr>] st1\<rparr>)"
    by (rule respond_unfold)
  from r assms have "final (respond llm s t st)
      = add_messages h [\<lparr>role = Human, content = t\<rparr>, \<lparr>role = AI, content = a\<rparr>] st1"
    by simp
  with b m show ?thesis by (simp add: history_messages_store add_messages_def)
qed

lemma store_inv_respond:
  assumes "store_inv st"
  shows "store_inv (final (respond llm s t st))"
proof -
  obtain h st1 where g: "get_by_session_id s st = Inr (h, st1)"
    and r: "respond llm s t st =
      (case llm (prompt (history_messages s st) t) of
         Inl e \<Rightarrow> \<lparr>result = Inl e, requests = [prompt (history_messages s st) t], final = st1\<rparr>
       | Inr a \<Rightarrow> \<lparr>result = Inr a, requests = [prompt (history_messages s st) t],
                   final = add_messages h [\<lparr>role = Human, content = t\<rparr>,
                                           \<lparr>role = AI, content = a\<rparr>] st1\<rparr>)"
    by (rule respond_unfold)
  from assms g have "store_inv st1" by (rule store_inv_get_by_session_id)
  with r show ?thesis by (simp split: sum.split)
qed

lemma history_messages_add_messages_other:
  assumes "store_inv st" and "s \<noteq> s'" and "store st s' = Some h'"
  shows "history_messages s (add_messages h' msgs st) = history_messages s st"
proof (cases "store st s")
  case None
  then show ?thesis by (simp add: history_messages_store)
next
  case (Some h)
  with assms have "h \<noteq> h'" by (blast dest: store_inv_distinct)
  with Some show ?thesis by (simp add: history_messages_store heap_add_messages_other)
qed

lemma history_messages_clear_other:
  assumes "store_inv st" and "s \<noteq> s'" and "store st s' = Some h'"
  shows "history_messages s (clear h' st) = history_messages s st"
proof (cases "store st s")
  case None
  then show ?thesis by (simp add: history_messages_store)
next
  case (Some h)
  with assms have "h \<noteq> h'" by (blast dest: store_inv_distinct)
  with Some show ?thesis by (simp add: history_messages_store heap_clear_other)
qed

subsection \<open>The example state\<close>

lemmas eval_defs =
  respond_def chain_def prompt_def get_by_session_id_def new_InMemoryHistory_def
  dict_getitem_def add_messages_def init_def replying_client_def failing_client_def

lemma store_inv_two_sessions: "store_inv two_sessions"
  unfolding two_sessions_def by (intro store_inv_respond store_inv_init)

lemma two_sessions_foo: "store two_sessions ''foo'' = Some 0"
  by (simp add: two_sessions_def eval_defs)

lemma two_sessions_bar: "store two_sessions ''bar'' = Some 1"
  by (simp add: two_sessions_def eval_defs)

lemma two_sessions_heap_foo:
  "messages (heap two_sessions 0)
   = [\<lparr>role = Human, content = ''Hi''\<rparr>, \<lparr>role = AI, content = ''Hello''\<rparr>]"
  by (simp add: two_sessions_def eval_defs)

lemma two_sessions_heap_bar:
  "messages (heap two_sessions 1)
   = [\<lparr>role = Human, content = ''What is the capital of France?''\<rparr>,
      \<lparr>role = AI, content = ''Paris''\<rparr>]"
  by (simp add: two_sessions_def eval_defs)


lemma history_two_sessions_foo:
  "history_messages ''foo'' two_sessions
   = [\<lparr>role = Human, content = ''Hi''\<rparr>, \<lparr>role = AI, content = ''Hello''\<rparr>]"
  by (simp add: history_messages_store two_sessions_foo two_sessions_heap_foo)

lemma two_sessions_baz: "store two_sessions ''baz'' = None"
  by (simp add: two_sessions_def eval_defs)

lemma history_messages_unseen: "store st s = None \<Longrightarrow> history_messages s st = []"
  by (simp add: history_messages_store)

lemma store_init: "store init s = None"
  by (simp add: init_def)

section \<open>The session store\<close>

text \<open>
  Claim C8. \<open>get_by_session_id\<close> has no error case: for every session identifier and
  in every state it returns a history and a state in which the identifier is bound
  to that history. The subscription in its last line cannot raise \<open>KeyError\<close>. The empty
  string is an identifier like any other.
\<close>

theorem get_by_session_id_total:
  "(\<exists>h st1. get_by_session_id s st = Inr (h, st1) \<and> store st1 s = Some h)
   \<and> (\<exists>h st1. get_by_session_id [] st = Inr (h, st1) \<and> store st1 [] = Some h)"
proof -
  have "\<exists>h st1. get_by_session_id k st = Inr (h, st1) \<and> store st1 k = Some h" for k
    by (cases "store st k") (simp_all add: get_by_session_id_unseen get_by_session_id_seen)
  then show ?thesis by blast
qed

text \<open>
  Claim C1. When the identifier \<open>s\<close> is not yet in the store, \<open>get_by_session_id s\<close>
  creates an empty history, binds \<open>s\<close> to it in the store (changing no other binding)
  and returns it. The history is a new object: it sits at the address the constructor
  hands out next, the constructor moves on to the following address, and no other
  object changes. In a state of the program the new object is none of the histories
  already in the store, every session seen before keeps its object and its messages,
  and the invariant of the store holds afterwards. From then on, whatever the program
  does in between (look up or create sessions, add messages to histories, clear
  histories), every call \<open>get_by_session_id s\<close> returns that same object and changes
  nothing.
\<close>

theorem get_by_session_id_creates_then_stable:
  assumes "store st s = None"
  shows "\<exists>h st1. get_by_session_id s st = Inr (h, st1)
           \<and> messages (heap st1 h) = []
           \<and> store st1 = (store st)(s \<mapsto> h)
           \<and> h = nxt st
           \<and> nxt st1 = Suc (nxt st)
           \<and> (\<forall>h'. h' \<noteq> h \<longrightarrow> heap st1 h' = heap st h')
           \<and> (store_inv st \<longrightarrow>
                 store_inv st1
                 \<and> (\<forall>s' h'. store st s' = Some h' \<longrightarrow>
                       h' \<noteq> h \<and> store st1 s' = Some h' \<and> heap st1 h' = heap st h'
                       \<and> history_messages s' st1 = history_messages s' st))
           \<and> (\<forall>acts. get_by_session_id s (run_actions acts st1)
                        = Inr (h, run_actions acts st1))"
proof -
  define h where "h = nxt st"
  define st1 where "st1 = st\<lparr>heap := (heap st)(nxt st := \<lparr>messages = []\<rparr>),
      nxt := Suc (nxt st), store := (store st)(s \<mapsto> nxt st)\<rparr>"
  have call: "get_by_session_id s st = Inr (h, st1)"
    using assms by (simp add: get_by_session_id_unseen h_def st1_def)
  have empty: "messages (heap st1 h) = []"
    by (simp add: st1_def h_def)
  have bound: "store st1 = (store st)(s \<mapsto> h)"
    by (simp add: st1_def h_def)
  have addr: "h = nxt st"
    by (simp add: h_def)
  have advance: "nxt st1 = Suc (nxt st)"
    by (simp add: st1_def)
  have others: "\<forall>h'. h' \<noteq> h \<longrightarrow> heap st1 h' = heap st h'"
    by (simp add: st1_def h_def)
  have fresh: "store_inv st \<longrightarrow>
                 store_inv st1
                 \<and> (\<forall>s' h'. store st s' = Some h' \<longrightarrow>
                       h' \<noteq> h \<and> store st1 s' = Some h' \<and> heap st1 h' = heap st h'
                       \<and> history_messages s' st1 = history_messages s' st)"
  proof
    assume inv: "store_inv st"
    from inv call have inv1: "store_inv st1"
      by (rule store_inv_get_by_session_id)
    have old: "h' \<noteq> h \<and> store st1 s' = Some h' \<and> heap st1 h' = heap st h'
        \<and> history_messages s' st1 = history_messages s' st"
      if b: "store st s' = Some h'" for s' h'
    proof -
      from inv b have "h' < nxt st" by (auto simp: store_inv_def)
      then have ne: "h' \<noteq> h" by (simp add: h_def)
      from call b have kept: "store st1 s' = Some h'"
        by (rule get_by_session_id_cases(4))
      from ne others have same: "heap st1 h' = heap st h'" by simp
      from b kept same have "history_messages s' st1 = history_messages s' st"
        by (simp add: history_messages_store)
      with ne kept same show ?thesis by simp
    qed
    from inv1 old show "store_inv st1
        \<and> (\<forall>s' h'. store st s' = Some h' \<longrightarrow>
              h' \<noteq> h \<and> store st1 s' = Some h' \<and> heap st1 h' = heap st h'
              \<and> history_messages s' st1 = history_messages s' st)"
      by blast
  qed
  have stable: "\<forall>acts. get_by_session_id s (run_actions acts st1)
      = Inr (h, run_actions acts st1)"
  proof
    fix acts
    from bound have "store st1 s = Some h" by simp
    then have "store (run_actions acts st1) s = Some h"
      by (rule run_actions_keeps_binding)
    then show "get_by_session_id s (run_actions acts st1) = Inr (h, run_actions acts st1)"
      by (rule get_by_session_id_seen)
  qed
  show ?thesis
    by (rule exI [of _ h], rule exI [of _ st1])
      (intro conjI call empty bound addr advance others fresh stable)
qed

theorem get_by_session_id_creates_then_stable_witness:
  "store two_sessions ''baz'' = None
   \<and> store_inv two_sessions
   \<and> store two_sessions ''foo'' = Some 0
   \<and> (\<exists>h st1. get_by_session_id ''baz'' two_sessions = Inr (h, st1)
          \<and> messages (heap st1 h) = []
          \<and> store st1 = (store two_sessions)(''baz'' \<mapsto> h)
          \<and> nxt st1 = Suc (nxt two_sessions)
          \<and> store_inv st1
          \<and> 0 \<noteq> h
          \<and> store st1 ''foo'' = Some 0
          \<and> heap st1 0 = heap two_sessions 0
          \<and> history_messages ''foo'' st1
              = [\<lparr>role = Human, content = ''Hi''\<rparr>, \<lparr>role = AI, content = ''Hello''\<rparr>]
          \<and> get_by_session_id ''baz''
               (run_actions [AddMessages h [\<lparr>role = Human, content = ''Q''\<rparr>],
                             GetOrCreate ''qux'', ClearHistory 0] st1)
              = Inr (h, run_actions [AddMessages h [\<lparr>role = Human, content = ''Q''\<rparr>],
                                     GetOrCreate ''qux'', ClearHistory 0] st1))"
proof -
  from get_by_session_id_creates_then_stable [OF two_sessions_baz]
  obtain h st1 where call: "get_by_session_id ''baz'' two_sessions = Inr (h, st1)"
    and empty: "messages (heap st1 h) = []"
    and bound: "store st1 = (store two_sessions)(''baz'' \<mapsto> h)"
    and advance: "nxt st1 = Suc (nxt two_sessions)"
    and fresh: "store_inv two_sessions \<longrightarrow>
                 store_inv st1
                 \<and> (\<forall>s' h'. store two_sessions s' = Some h' \<longrightarrow>
                       h' \<noteq> h \<and> store st1 s' = Some h' \<and> heap st1 h' = heap two_sessions h'
                       \<and> history_messages s' st1 = history_messages s' two_sessions)"
    and stable: "\<forall>acts. get_by_session_id ''baz'' (run_actions acts st1)
                        = Inr (h, run_actions acts st1)"
    by (elim exE conjE)
  note f = fresh [rule_format, OF store_inv_two_sessions]
  note inv1 = f [THEN conjunct1]
  note old = f [THEN conjunct2, rule_format, OF two_sessions_foo]
  note ne = old [THEN conjunct1]
  note kept = old [THEN conjunct2, THEN conjunct1]
  note same = old [THEN conjunct2, THEN conjunct2, THEN conjunct1]
  note hist = old [THEN conjunct2, THEN conjunct2, THEN conjunct2,
      unfolded history_two_sessions_foo]
  note again = stable [rule_format]
  show ?thesis
    by (intro conjI two_sessions_baz store_inv_two_sessions two_sessions_foo
        exI [of _ h] exI [of _ st1] call empty bound advance inv1 ne kept same hist again)
qed

section \<open>Independence of sessions\<close>

text \<open>
  Claim C6. In a state of the program (one that satisfies the invariant of the store),
  the histories that \<open>get_by_session_id\<close> returns for two different identifiers are
  two different objects, and adding messages to the first leaves the second as it was:
  the object itself and the messages a caller sees for the second session.
\<close>

theorem distinct_sessions_independent:
  assumes "store_inv st" and "s1 \<noteq> s2"
    and "get_by_session_id s1 st = Inr (h1, st1)"
    and "get_by_session_id s2 st1 = Inr (h2, st2)"
  shows "h1 \<noteq> h2
         \<and> heap (add_messages h1 msgs st2) h2 = heap st2 h2
         \<and> history_messages s2 (add_messages h1 msgs st2) = history_messages s2 st2"
proof -
  have inv2: "store_inv st2"
    using assms(1,3,4) by (blast intro: store_inv_get_by_session_id)
  have b2: "store st2 s2 = Some h2"
    using assms(4) by (rule get_by_session_id_cases(1))
  have "store st1 s1 = Some h1"
    using assms(3) by (rule get_by_session_id_cases(1))
  with assms(4) have b1: "store st2 s1 = Some h1"
    by (rule get_by_session_id_cases(4))
  from inv2 assms(2) b1 b2 have ne: "h1 \<noteq> h2"
    by (rule store_inv_distinct)
  then have same: "heap (add_messages h1 msgs st2) h2 = heap st2 h2"
    by (simp add: heap_add_messages_other)
  with b2 have "history_messages s2 (add_messages h1 msgs st2) = history_messages s2 st2"
    by (simp add: history_messages_store)
  with ne same show ?thesis by simp
qed

theorem distinct_sessions_independent_witness:
  "store_inv init \<and> ''foo'' \<noteq> ''bar''
   \<and> get_by_session_id ''foo'' init = Inr (0, run_actions [GetOrCreate ''foo''] init)
   \<and> get_by_session_id ''bar'' (run_actions [GetOrCreate ''foo''] init)
       = Inr (1, run_actions [GetOrCreate ''foo'', GetOrCreate ''bar''] init)
   \<and> (0::addr) \<noteq> 1
   \<and> heap (add_messages 0 [\<lparr>role = Human, content = ''Hi''\<rparr>]
            (run_actions [GetOrCreate ''foo'', GetOrCreate ''bar''] init)) 1
       = heap (run_actions [GetOrCreate ''foo'', GetOrCreate ''bar''] init) 1
   \<and> history_messages ''bar'' (add_messages 0 [\<lparr>role = Human, content = ''Hi''\<rparr>]
            (run_actions [GetOrCreate ''foo'', GetOrCreate ''bar''] init))
       = history_messages ''bar'' (run_actions [GetOrCreate ''foo'', GetOrCreate ''bar''] init)"
proof -
  have ne: "''foo'' \<noteq> ''bar''" by simp
  have g1: "get_by_session_id ''foo'' init = Inr (0, run_actions [GetOrCreate ''foo''] init)"
    by (simp add: get_by_session_id_def new_InMemoryHistory_def dict_getitem_def init_def)
  have g2: "get_by_session_id ''bar'' (run_actions [GetOrCreate ''foo''] init)
       = Inr (1, run_actions [GetOrCreate ''foo'', GetOrCreate ''bar''] init)"
    by (simp add: get_by_session_id_def new_InMemoryHistory_def dict_getitem_def init_def)
  from distinct_sessions_independent [OF store_inv_init ne g1 g2] store_inv_init ne g1 g2
  show ?thesis by blast
qed

section \<open>Clearing a history\<close>

text \<open>
  Claim C10. \<open>InMemoryHistory\<close> has a method \<open>clear\<close>. In a state of the program, after
  \<open>clear\<close> on the history that \<open>get_by_session_id s\<close> returned, that history has no
  messages; the store is the same mapping as before, so \<open>get_by_session_id s\<close> still
  returns the same object, now empty, and changes nothing; and the history of every
  other session is what it was.
\<close>

theorem clear_empties_only_its_history:
  assumes "store_inv st" and "get_by_session_id s st = Inr (h, st1)"
  shows "messages (heap (clear h st1) h) = []
         \<and> store (clear h st1) = store st1
         \<and> get_by_session_id s (clear h st1) = Inr (h, clear h st1)
         \<and> history_messages s (clear h st1) = []
         \<and> (\<forall>s' h'. s' \<noteq> s \<and> store st1 s' = Some h'
               \<longrightarrow> heap (clear h st1) h' = heap st1 h')
         \<and> (\<forall>s'. s' \<noteq> s \<longrightarrow> history_messages s' (clear h st1) = history_messages s' st1)"
proof -
  have inv1: "store_inv st1"
    using assms by (rule store_inv_get_by_session_id)
  have b: "store st1 s = Some h"
    using assms(2) by (rule get_by_session_id_cases(1))
  have emp: "messages (heap (clear h st1) h) = []"
    by (simp add: clear_def)
  have again: "get_by_session_id s (clear h st1) = Inr (h, clear h st1)"
    using b by (simp add: get_by_session_id_seen)
  have hist: "history_messages s (clear h st1) = []"
    using b emp by (simp add: history_messages_store)
  have others: "heap (clear h st1) h' = heap st1 h'"
    if "s' \<noteq> s" and "store st1 s' = Some h'" for s' h'
  proof -
    from inv1 that(1) that(2) b have "h' \<noteq> h" by (rule store_inv_distinct)
    then show ?thesis by (rule heap_clear_other)
  qed
  have others_hist: "history_messages s' (clear h st1) = history_messages s' st1"
    if "s' \<noteq> s" for s'
    using that others [of s'] by (simp add: history_messages_store split: option.split)
  have same_store: "store (clear h st1) = store st1"
    by simp
  from emp same_store again hist others others_hist show ?thesis by blast
qed



theorem clear_empties_only_its_history_witness:
  "store_inv two_sessions
   \<and> get_by_session_id ''foo'' two_sessions = Inr (0, two_sessions)
   \<and> messages (heap two_sessions 0) \<noteq> []
   \<and> messages (heap (clear 0 two_sessions) 0) = []
   \<and> store (clear 0 two_sessions) = store two_sessions
   \<and> get_by_session_id ''foo'' (clear 0 two_sessions) = Inr (0, clear 0 two_sessions)
   \<and> history_messages ''foo'' (clear 0 two_sessions) = []
   \<and> ''bar'' \<noteq> ''foo'' \<and> store two_sessions ''bar'' = Some 1
   \<and> heap (clear 0 two_sessions) 1 = heap two_sessions 1
   \<and> history_messages ''bar'' (clear 0 two_sessions) = history_messages ''bar'' two_sessions"
proof -
  have g: "get_by_session_id ''foo'' two_sessions = Inr (0, two_sessions)"
    using two_sessions_foo by (rule get_by_session_id_seen)
  have ne: "''bar'' \<noteq> ''foo''" by simp
  have nonempty: "messages (heap two_sessions 0) \<noteq> []"
    by (simp add: two_sessions_heap_foo)
  note T = clear_empties_only_its_history [OF store_inv_two_sessions g]
  note c1 = T [THEN conjunct1]
  note c2 = T [THEN conjunct2, THEN conjunct1]
  note c3 = T [THEN conjunct2, THEN conjunct2, THEN conjunct1]
  note c4 = T [THEN conjunct2, THEN conjunct2, THEN conjunct2, THEN conjunct1]
  note c5 = T [THEN conjunct2, THEN conjunct2, THEN conjunct2, THEN conjunct2, THEN conjunct1,
      rule_format, of "''bar''" 1]
  note c6 = T [THEN conjunct2, THEN conjunct2, THEN conjunct2, THEN conjunct2, THEN conjunct2,
      rule_format, of "''bar''"]
  have o1: "heap (clear 0 two_sessions) 1 = heap two_sessions 1"
    using c5 ne two_sessions_bar by simp
  have o2: "history_messages ''bar'' (clear 0 two_sessions) = history_messages ''bar'' two_sessions"
    using c6 ne by simp
  show ?thesis
    by (intro conjI store_inv_two_sessions g nonempty c1 c2 c3 c4 ne two_sessions_bar o1 o2)
qed


section \<open>The conversation runner\<close>

lemma respond_seen_failure_final:
  assumes "store st s = Some h" and "llm (prompt (history_messages s st) t) = Inl e"
  shows "final (respond llm s t st) = st"
proof -
  from assms(1) have "get_by_session_id s st = Inr (h, st)"
    by (rule get_by_session_id_seen)
  moreover from assms(1) have "messages (heap st h) = history_messages s st"
    by (simp add: history_messages_store)
  ultimately show ?thesis
    using assms(2) by (simp add: respond_def chain_def)
qed

lemma respond_twice_appends:
  assumes "result (respond llm1 s q1 st) = Inr a1"
    and "result (respond llm2 s q2 (final (respond llm1 s q1 st))) = Inr a2"
  shows "history_messages s (final (respond llm1 s q1 st))
           = history_messages s st
             @ [\<lparr>role = Human, content = q1\<rparr>, \<lparr>role = AI, content = a1\<rparr>]"
    and "history_messages s (final (respond llm2 s q2 (final (respond llm1 s q1 st))))
           = history_messages s st
             @ [\<lparr>role = Human, content = q1\<rparr>, \<lparr>role = AI, content = a1\<rparr>,
                \<lparr>role = Human, content = q2\<rparr>, \<lparr>role = AI, content = a2\<rparr>]"
proof -
  let ?st1 = "final (respond llm1 s q1 st)"
  from assms(1) have "llm1 (prompt (history_messages s st) q1) = Inr a1"
    by (simp add: result_respond)
  then show first: "history_messages s ?st1
      = history_messages s st @ [\<lparr>role = Human, content = q1\<rparr>, \<lparr>role = AI, content = a1\<rparr>]"
    by (rule history_respond_success)
  from assms(2) have "llm2 (prompt (history_messages s ?st1) q2) = Inr a2"
    by (simp add: result_respond)
  then have "history_messages s (final (respond llm2 s q2 ?st1))
      = history_messages s ?st1 @ [\<lparr>role = Human, content = q2\<rparr>, \<lparr>role = AI, content = a2\<rparr>]"
    by (rule history_respond_success)
  with first show "history_messages s (final (respond llm2 s q2 ?st1))
           = history_messages s st
             @ [\<lparr>role = Human, content = q1\<rparr>, \<lparr>role = AI, content = a1\<rparr>,
                \<lparr>role = Human, content = q2\<rparr>, \<lparr>role = AI, content = a2\<rparr>]"
    by simp
qed

text \<open>
  Claim C3. The runner sends exactly one request to the model client, and that request
  is the full history of the session as it was before the call, in order, followed by
  one new human message that carries the text; the model client is asked about exactly
  this list.
\<close>

theorem respond_request_is_history_then_question:
  "requests (respond llm s t st)
     = [history_messages s st @ [\<lparr>role = Human, content = t\<rparr>]]
   \<and> result (respond llm s t st)
     = llm (history_messages s st @ [\<lparr>role = Human, content = t\<rparr>])"
  by (simp add: requests_respond result_respond prompt_def)

text \<open>
  Claim C5. The runner calls the model client once, and what the runner gives back is
  what that one call gave: the very error the model client raised, or the reply text
  the model client returned. Nothing is retried, reclassified or substituted.
\<close>

theorem respond_result_is_client_result:
  "\<exists>request. requests (respond llm s t st) = [request]
      \<and> result (respond llm s t st) = llm request"
  by (simp add: requests_respond result_respond)

text \<open>
  Claim C4. When the model client fails on the request of this call, the runner fails
  with that error and the history of the session is what it was before the call:
  the same messages, so the same length. If the session already had a history object,
  the state as a whole is unchanged.
\<close>

theorem respond_failure_leaves_history:
  assumes "llm (history_messages s st @ [\<lparr>role = Human, content = t\<rparr>]) = Inl e"
  shows "result (respond llm s t st) = Inl e
         \<and> history_messages s (final (respond llm s t st)) = history_messages s st
         \<and> length (history_messages s (final (respond llm s t st)))
             = length (history_messages s st)
         \<and> (store st s \<noteq> None \<longrightarrow> final (respond llm s t st) = st)"
proof -
  from assms have fails: "llm (prompt (history_messages s st) t) = Inl e"
    by (simp add: prompt_def)
  then have r: "result (respond llm s t st) = Inl e"
    by (simp add: result_respond)
  from fails have h: "history_messages s (final (respond llm s t st)) = history_messages s st"
    by (rule history_respond_failure)
  have "final (respond llm s t st) = st" if "store st s \<noteq> None"
  proof -
    from that obtain a where "store st s = Some a" by blast
    then show ?thesis using fails by (rule respond_seen_failure_final)
  qed
  with r h show ?thesis by simp
qed

theorem respond_failure_leaves_history_witness:
  "failing_client (ModelClientError ''rate limit'')
      (history_messages ''foo'' two_sessions
        @ [\<lparr>role = Human, content = ''What is its population?''\<rparr>])
     = Inl (ModelClientError ''rate limit'')
   \<and> store two_sessions ''foo'' \<noteq> None
   \<and> result (respond (failing_client (ModelClientError ''rate limit'')) ''foo''
               ''What is its population?'' two_sessions)
       = Inl (ModelClientError ''rate limit'')
   \<and> history_messages ''foo''
        (final (respond (failing_client (ModelClientError ''rate limit'')) ''foo''
                 ''What is its population?'' two_sessions))
       = [\<lparr>role = Human, content = ''Hi''\<rparr>, \<lparr>role = AI, content = ''Hello''\<rparr>]
   \<and> final (respond (failing_client (ModelClientError ''rate limit'')) ''foo''
               ''What is its population?'' two_sessions)
       = two_sessions"
proof -
  have fails: "failing_client (ModelClientError ''rate limit'')
      (history_messages ''foo'' two_sessions
        @ [\<lparr>role = Human, content = ''What is its population?''\<rparr>])
     = Inl (ModelClientError ''rate limit'')"
    by (simp add: failing_client_def)
  have seen: "store two_sessions ''foo'' \<noteq> None"
    by (simp add: two_sessions_foo)
  note T = respond_failure_leaves_history
    [where llm = "failing_client (ModelClientError ''rate limit'')" and s = "''foo''"
       and st = two_sessions and t = "''What is its population?''"
       and e = "ModelClientError ''rate limit''", OF fails]
  note c1 = T [THEN conjunct1]
  note c2 = T [THEN conjunct2, THEN conjunct1, unfolded history_two_sessions_foo]
  note c4 = T [THEN conjunct2, THEN conjunct2, THEN conjunct2, rule_format, OF seen]
  show ?thesis
    by (intro conjI fails seen c1 c2 c4)
qed


text \<open>
  Claim C2. Take a session \<open>s\<close> with no earlier turn: its history is empty before the
  first call, as it is for every identifier that is not yet in the store. After two
  successful calls of the runner on \<open>s\<close>, with texts \<open>q1\<close> and \<open>q2\<close> and replies \<open>a1\<close>
  and \<open>a2\<close>, the history of \<open>s\<close> holds exactly four messages, in this order: human
  \<open>q1\<close>, reply \<open>a1\<close>, human \<open>q2\<close>, reply \<open>a2\<close>. After the first call it holds the
  first two, so in each turn the human message comes before its reply. The two calls
  may be answered by different behaviours of the model client.
\<close>

theorem respond_twice_from_empty_history:
  assumes "history_messages s st = []"
    and "result (respond llm1 s q1 st) = Inr a1"
    and "result (respond llm2 s q2 (final (respond llm1 s q1 st))) = Inr a2"
  shows "history_messages s (final (respond llm1 s q1 st))
           = [\<lparr>role = Human, content = q1\<rparr>, \<lparr>role = AI, content = a1\<rparr>]
         \<and> history_messages s (final (respond llm2 s q2 (final (respond llm1 s q1 st))))
           = [\<lparr>role = Human, content = q1\<rparr>, \<lparr>role = AI, content = a1\<rparr>,
              \<lparr>role = Human, content = q2\<rparr>, \<lparr>role = AI, content = a2\<rparr>]"
  using respond_twice_appends [OF assms(2,3)] assms(1) by simp

theorem respond_twice_from_empty_history_witness:
  "store init ''s1'' = None
   \<and> history_messages ''s1'' init = []
   \<and> result (respond (replying_client ''Paris'') ''s1'' ''What is the capital of France?'' init)
       = Inr ''Paris''
   \<and> result (respond (replying_client ''Two million'') ''s1'' ''What is its population?''
         (final (respond (replying_client ''Paris'') ''s1''
                   ''What is the capital of France?'' init)))
       = Inr ''Two million''
   \<and> history_messages ''s1''
        (final (respond (replying_client ''Two million'') ''s1'' ''What is its population?''
           (final (respond (replying_client ''Paris'') ''s1''
                     ''What is the capital of France?'' init))))
       = [\<lparr>role = Human, content = ''What is the capital of France?''\<rparr>,
          \<lparr>role = AI, content = ''Paris''\<rparr>,
          \<lparr>role = Human, content = ''What is its population?''\<rparr>,
          \<lparr>role = AI, content = ''Two million''\<rparr>]"
proof -
  have e: "history_messages ''s1'' init = []"
    using store_init by (rule history_messages_unseen)
  have r1: "result (respond (replying_client ''Paris'') ''s1''
                      ''What is the capital of France?'' init) = Inr ''Paris''"
    by (simp add: result_respond replying_client_def)
  have r2: "result (respond (replying_client ''Two million'') ''s1'' ''What is its population?''
         (final (respond (replying_client ''Paris'') ''s1''
                   ''What is the capital of France?'' init))) = Inr ''Two million''"
    by (simp add: result_respond replying_client_def)
  note T = respond_twice_from_empty_history [OF e r1 r2]
  show ?thesis
    by (intro conjI store_init e r1 r2 T [THEN conjunct2])
qed

text \<open>
  Claim C7. In a state of the program, the request the runner builds for a session
  does not depend on the history of any other session: adding messages to the history
  of another session, or clearing it, leaves the request for this session the same.
  More generally, two runs from any two states that agree on the history of this
  session send the same request, however the two states differ elsewhere and whichever
  model client answers.
\<close>

theorem respond_request_ignores_other_sessions:
  assumes "store_inv st" and "s \<noteq> other" and "store st other = Some ho"
  shows "requests (respond llm s t (add_messages ho msgs st)) = requests (respond llm s t st)
         \<and> requests (respond llm s t (clear ho st)) = requests (respond llm s t st)
         \<and> (\<forall>st' llm'. history_messages s st' = history_messages s st
               \<longrightarrow> requests (respond llm' s t st') = requests (respond llm s t st))"
proof -
  have "history_messages s (add_messages ho msgs st) = history_messages s st"
    using assms by (rule history_messages_add_messages_other)
  then have a: "requests (respond llm s t (add_messages ho msgs st))
      = requests (respond llm s t st)"
    by (simp add: requests_respond)
  have "history_messages s (clear ho st) = history_messages s st"
    using assms by (rule history_messages_clear_other)
  then have c: "requests (respond llm s t (clear ho st)) = requests (respond llm s t st)"
    by (simp add: requests_respond)
  have g: "requests (respond llm' s t st') = requests (respond llm s t st)"
    if "history_messages s st' = history_messages s st" for st' llm'
    using that by (simp add: requests_respond)
  from a c g show ?thesis by blast
qed

theorem respond_request_ignores_other_sessions_witness:
  "store_inv two_sessions \<and> ''foo'' \<noteq> ''bar'' \<and> store two_sessions ''bar'' = Some 1
   \<and> requests (respond (replying_client ''A'') ''foo'' ''What is its population?''
        (add_messages 1 [\<lparr>role = Human, content = ''What is the capital of Peru?''\<rparr>,
                         \<lparr>role = AI, content = ''Lima''\<rparr>] two_sessions))
       = requests (respond (replying_client ''A'') ''foo'' ''What is its population?''
           two_sessions)
   \<and> requests (respond (replying_client ''A'') ''foo'' ''What is its population?''
        (clear 1 two_sessions))
       = requests (respond (replying_client ''A'') ''foo'' ''What is its population?''
           two_sessions)
   \<and> history_messages ''foo'' (clear 1 two_sessions) = history_messages ''foo'' two_sessions
   \<and> requests (respond (failing_client (ModelClientError ''timeout'')) ''foo''
        ''What is its population?'' (clear 1 two_sessions))
       = requests (respond (replying_client ''A'') ''foo'' ''What is its population?''
           two_sessions)
   \<and> requests (respond (replying_client ''A'') ''foo'' ''What is its population?''
           two_sessions)
       = [[\<lparr>role = Human, content = ''Hi''\<rparr>, \<lparr>role = AI, content = ''Hello''\<rparr>,
           \<lparr>role = Human, content = ''What is its population?''\<rparr>]]"
proof -
  have ne: "''foo'' \<noteq> ''bar''" by simp
  have same: "history_messages ''foo'' (clear 1 two_sessions)
      = history_messages ''foo'' two_sessions"
    using store_inv_two_sessions ne two_sessions_bar by (rule history_messages_clear_other)
  note T = respond_request_ignores_other_sessions
    [where llm = "replying_client ''A''" and t = "''What is its population?''",
     OF store_inv_two_sessions ne two_sessions_bar]
  note c1 = T [THEN conjunct1]
  note c2 = T [THEN conjunct2, THEN conjunct1]
  note c3 = T [THEN conjunct2, THEN conjunct2, rule_format, OF same]
  have req: "requests (respond (replying_client ''A'') ''foo'' ''What is its population?''
           two_sessions)
       = [[\<lparr>role = Human, content = ''Hi''\<rparr>, \<lparr>role = AI, content = ''Hello''\<rparr>,
           \<lparr>role = Human, content = ''What is its population?''\<rparr>]]"
    by (simp add: requests_respond prompt_def history_two_sessions_foo)
  show ?thesis
    by (intro conjI store_inv_two_sessions ne two_sessions_bar c1 c2 same c3 req)
qed

end
